theory Spec2Isabelle
  imports Complex_Main "HOL-Library.Word"
begin

section \<open>Stop reasons (converters: \<open>convertStopReason\<close>)\<close>

text \<open>
  \<open>IV3FinishReason\<close> is a union of six string literals. The vendor reason is
  \<open>string | null\<close>: \<open>None\<close> is \<open>null\<close>.
\<close>

datatype IV3FinishReason =
  Stop | Length | ContentFilter | ToolCalls | ErrorReason | Other

definition convertStopReason :: "string option \<Rightarrow> IV3FinishReason" where
  "convertStopReason reason =
     (if reason = Some ''end_turn'' then Stop
      else if reason = Some ''stop_sequence'' then Stop
      else if reason = Some ''max_tokens'' then Length
      else if reason = Some ''tool_use'' then ToolCalls
      else Other)"

section \<open>Stream processor (stream: \<open>processStream\<close>, \<open>processStreamEvent\<close>)\<close>

subsection \<open>Vendor events\<close>

text \<open>
  A property that may be absent is an \<open>option\<close>; \<open>stop_reason\<close> may be absent,
  \<open>null\<close> or a string. The event shapes are those the processor reads:
  \<open>message_start{message.usage.input_tokens?}\<close>,
  \<open>content_block_start{index, content_block:{type, id?, name?}}\<close>,
  \<open>content_block_delta{index, delta:{type, text?, partial_json?}}\<close>,
  \<open>content_block_stop{index}\<close>,
  \<open>message_delta{delta.stop_reason?, usage.output_tokens?}\<close>.
  Any other event type falls through the \<open>switch\<close>.
\<close>

datatype 'a nullable = Undefined | Null | Defined 'a

record content_block =
  cb_type :: string
  cb_id :: "string option"
  cb_name :: "string option"

record block_delta =
  delta_type :: string
  delta_text :: "string option"
  partial_json :: "string option"

datatype IAnthropicStreamEvent =
    MessageStart "int option"
  | ContentBlockStart nat content_block
  | ContentBlockDelta nat block_delta
  | ContentBlockStop nat
  | MessageDelta "string nullable" "int option"
  | OtherEvent string

text \<open>JavaScript truthiness of an optional string: present and not empty.\<close>

definition truthy :: "string option \<Rightarrow> bool" where
  "truthy s = (case s of None \<Rightarrow> False | Some v \<Rightarrow> v \<noteq> [])"

subsection \<open>Unified stream parts\<close>

record usage =
  inputTokens_total :: int
  inputTokens_noCache :: "int option"
  inputTokens_cacheRead :: "int option"
  inputTokens_cacheWrite :: "int option"
  outputTokens_total :: int
  outputTokens_text :: int
  outputTokens_reasoning :: "int option"

text \<open>
  The fault of the event source is whatever value it throws. The processor passes it
  on and never inspects it: an opaque type.
\<close>

typedecl thrown

datatype stream_part =
    StreamStart
  | TextStart string
  | TextDelta string string
  | TextEnd string
  | ToolCall string string string
  | Finish IV3FinishReason string usage
  | ErrorPart thrown

subsection \<open>Stream state\<close>

record tool_call_acc =
  tc_id :: string
  tc_name :: string
  argsText :: string

record StreamState =
  toolCalls :: "nat \<rightharpoonup> tool_call_acc"
  textBlockIds :: "nat set"
  inputTokens :: int
  outputTokens :: int
  finishReasonRaw :: string

definition initial_state :: StreamState where
  "initial_state =
     \<lparr> toolCalls = Map.empty, textBlockIds = {}, inputTokens = 0,
       outputTokens = 0, finishReasonRaw = ''other'' \<rparr>"

text \<open>The template literal \<open>`text-${index}`\<close>: the index in decimal.\<close>

fun string_of_nat :: "nat \<Rightarrow> string" where
  "string_of_nat n =
     (if n < 10 then [''0123456789'' ! n]
      else string_of_nat (n div 10) @ [''0123456789'' ! (n mod 10)])"

declare string_of_nat.simps [simp del]

definition text_id :: "nat \<Rightarrow> string" where
  "text_id index = ''text-'' @ string_of_nat index"

subsection \<open>One event\<close>

definition on_content_block_start ::
  "nat \<Rightarrow> content_block \<Rightarrow> StreamState \<Rightarrow> stream_part list \<times> StreamState" where
  "on_content_block_start index block s =
     (let (parts, s1) =
            (if cb_type block = ''text''
             then ([TextStart (text_id index)],
                   s\<lparr>textBlockIds := insert index (textBlockIds s)\<rparr>)
             else ([], s));
          s2 =
            (if cb_type block = ''tool_use'' \<and> truthy (cb_id block) \<and> truthy (cb_name block)
             then s1\<lparr>toolCalls := (toolCalls s1)(index \<mapsto>
                    \<lparr> tc_id = the (cb_id block), tc_name = the (cb_name block),
                      argsText = [] \<rparr>)\<rparr>
             else s1)
      in (parts, s2))"

definition on_content_block_delta ::
  "nat \<Rightarrow> block_delta \<Rightarrow> StreamState \<Rightarrow> stream_part list \<times> StreamState" where
  "on_content_block_delta index delta s =
     (let (parts, s1) =
            (if delta_type delta = ''text_delta'' \<and> delta_text delta \<noteq> None
             then
               (let (started, s0) =
                      (if index \<notin> textBlockIds s
                       then ([TextStart (text_id index)],
                             s\<lparr>textBlockIds := insert index (textBlockIds s)\<rparr>)
                       else ([], s))
                in (started @ [TextDelta (text_id index) (the (delta_text delta))], s0))
             else ([], s));
          s2 =
            (if delta_type delta = ''input_json_delta'' \<and> truthy (partial_json delta)
             then (case toolCalls s1 index of
                     Some toolCall \<Rightarrow>
                       s1\<lparr>toolCalls := (toolCalls s1)(index \<mapsto>
                            toolCall\<lparr>argsText := argsText toolCall @ the (partial_json delta)\<rparr>)\<rparr>
                   | None \<Rightarrow> s1)
             else s1)
      in (parts, s2))"

definition on_content_block_stop ::
  "nat \<Rightarrow> StreamState \<Rightarrow> stream_part list \<times> StreamState" where
  "on_content_block_stop index s =
     (let parts = (if index \<in> textBlockIds s then [TextEnd (text_id index)] else [])
      in case toolCalls s index of
           Some toolCall \<Rightarrow>
             (parts @ [ToolCall (tc_id toolCall) (tc_name toolCall)
                         (if argsText toolCall = [] then ''{}'' else argsText toolCall)],
              s\<lparr>toolCalls := (toolCalls s)(index := None)\<rparr>)
         | None \<Rightarrow> (parts, s))"

fun processStreamEvent ::
  "IAnthropicStreamEvent \<Rightarrow> StreamState \<Rightarrow> stream_part list \<times> StreamState" where
  "processStreamEvent (MessageStart input_tokens) s =
     ([], case input_tokens of Some n \<Rightarrow> s\<lparr>inputTokens := n\<rparr> | None \<Rightarrow> s)"
| "processStreamEvent (ContentBlockStart index block) s = on_content_block_start index block s"
| "processStreamEvent (ContentBlockDelta index delta) s = on_content_block_delta index delta s"
| "processStreamEvent (ContentBlockStop index) s = on_content_block_stop index s"
| "processStreamEvent (MessageDelta stop_reason output_tokens) s =
     (let s1 = (case output_tokens of Some n \<Rightarrow> s\<lparr>outputTokens := n\<rparr> | None \<Rightarrow> s);
          s2 = (case stop_reason of Defined r \<Rightarrow> s1\<lparr>finishReasonRaw := r\<rparr> | _ \<Rightarrow> s1)
      in ([], s2))"
| "processStreamEvent (OtherEvent t) s = ([], s)"

subsection \<open>The whole stream\<close>

text \<open>
  The event source is an \<open>AsyncIterable\<close>. A source that ends is the list of the events
  it yields and the way it ends: it completes, or it raises a fault. The \<open>for await\<close>
  loop is \<open>consume\<close>; its flag is \<open>hasEmittedStart\<close>; the result is what has been
  enqueued, in order, with the state the loop leaves.
\<close>

datatype source_end = Completes | Raises thrown

fun consume ::
  "IAnthropicStreamEvent list \<Rightarrow> bool \<Rightarrow> StreamState \<Rightarrow> stream_part list \<times> StreamState" where
  "consume [] hasEmittedStart s = ([], s)"
| "consume (event # events) hasEmittedStart s =
     (let start = (if \<not> hasEmittedStart then [StreamStart] else []);
          (parts, s1) = processStreamEvent event s;
          (rest, s2) = consume events True s1
      in (start @ parts @ rest, s2))"

definition finish_part :: "StreamState \<Rightarrow> stream_part" where
  "finish_part s =
     Finish (convertStopReason (Some (finishReasonRaw s))) (finishReasonRaw s)
       \<lparr> inputTokens_total = inputTokens s, inputTokens_noCache = None,
         inputTokens_cacheRead = None, inputTokens_cacheWrite = None,
         outputTokens_total = outputTokens s, outputTokens_text = outputTokens s,
         outputTokens_reasoning = None \<rparr>"

definition terminal_part :: "source_end \<Rightarrow> StreamState \<Rightarrow> stream_part" where
  "terminal_part ending s = (case ending of Completes \<Rightarrow> finish_part s | Raises error \<Rightarrow> ErrorPart error)"

definition delivered :: "IAnthropicStreamEvent list \<Rightarrow> stream_part list" where
  "delivered events = fst (consume events False initial_state)"

definition state_after :: "IAnthropicStreamEvent list \<Rightarrow> StreamState" where
  "state_after events = snd (consume events False initial_state)"

definition processStream ::
  "IAnthropicStreamEvent list \<Rightarrow> source_end \<Rightarrow> stream_part list" where
  "processStream events ending =
     (let (parts, s) = consume events False initial_state
      in parts @ [terminal_part ending s])"



fun is_finish :: "stream_part \<Rightarrow> bool" where
  "is_finish (Finish _ _ _) = True"
| "is_finish _ = False"

fun is_error :: "stream_part \<Rightarrow> bool" where
  "is_error (ErrorPart _) = True"
| "is_error _ = False"



section \<open>Errors (errors: \<open>AzureAnthropicError\<close>)\<close>

datatype error_code = Validation | Conversion

record AzureAnthropicError =
  code :: error_code
  message :: string
  field :: "string option"

text \<open>
  The constructor \<open>(code, message, field?)\<close>. A \<open>throw\<close> is the value \<open>Inl\<close> of the
  error; a call with two arguments leaves \<open>field\<close> undefined.
\<close>

definition new_AzureAnthropicError ::
  "error_code \<Rightarrow> string \<Rightarrow> string option \<Rightarrow> AzureAnthropicError" where
  "new_AzureAnthropicError c m f = \<lparr> code = c, message = m, field = f \<rparr>"

section \<open>Prompt and content conversion (converters)\<close>

subsection \<open>Values of the language\<close>

text \<open>
  A JSON value. \<open>JSON.parse\<close> and \<open>JSON.stringify\<close> belong to the language, not to the
  repository: they are parameters of the conversion. \<open>JSON_parse\<close> is \<open>None\<close> where
  \<open>JSON.parse\<close> throws.
\<close>

datatype json =
    JNull
  | JBool bool
  | JNumber real
  | JString string
  | JArray "json list"
  | JObject "(string \<times> json) list"

record js_runtime =
  JSON_parse :: "string \<Rightarrow> json option"
  JSON_stringify :: "json \<Rightarrow> string"

text \<open>\<open>Array.prototype.join\<close> on strings.\<close>

fun join :: "string \<Rightarrow> string list \<Rightarrow> string" where
  "join sep [] = []"
| "join sep [x] = x"
| "join sep (x # y # ys) = x @ sep @ join sep (y # ys)"

text \<open>\<open>Buffer.from(data).toString("base64")\<close>: standard base64 with padding.\<close>

definition base64_char :: "nat \<Rightarrow> char" where
  "base64_char n =
     ''ABCDEFGHIJKLMNOPQRSTUVWXYZabcdefghijklmnopqrstuvwxyz0123456789+/'' ! (n mod 64)"

fun base64 :: "8 word list \<Rightarrow> string" where
  "base64 [] = []"
| "base64 [a] =
     (let x = unat a
      in [base64_char (x div 4), base64_char ((x mod 4) * 16), CHR ''='', CHR ''=''])"
| "base64 [a, b] =
     (let x = unat a; y = unat b
      in [base64_char (x div 4), base64_char ((x mod 4) * 16 + y div 16),
          base64_char ((y mod 16) * 4), CHR ''=''])"
| "base64 (a # b # c # rest) =
     (let x = unat a; y = unat b; z = unat c
      in [base64_char (x div 4), base64_char ((x mod 4) * 16 + y div 16),
          base64_char ((y mod 16) * 4 + z div 64), base64_char (z mod 64)] @ base64 rest)"

subsection \<open>Unified messages\<close>

text \<open>
  A content part is tagged by its \<open>type\<close>. \<open>UnknownPart t\<close> is a part with any
  other tag \<open>t\<close>. A tool result may lack its \<open>toolCallId\<close> and its \<open>isError\<close>.
\<close>

datatype file_data = DataString string | DataBytes "8 word list"

datatype tool_args = ArgsString string | ArgsObject json

datatype IV3ContentPart =
    TextPart string
  | FilePart file_data string
  | ToolCallPart string string tool_args
  | ToolResultPart "string option" json "bool option"
  | UnknownPart string

fun part_type :: "IV3ContentPart \<Rightarrow> string" where
  "part_type (TextPart _) = ''text''"
| "part_type (FilePart _ _) = ''file''"
| "part_type (ToolCallPart _ _ _) = ''tool-call''"
| "part_type (ToolResultPart _ _ _) = ''tool-result''"
| "part_type (UnknownPart t) = t"

text \<open>The property \<open>toolCallId\<close> of a part, \<open>None\<close> where the part has none.\<close>

fun part_toolCallId :: "IV3ContentPart \<Rightarrow> string option" where
  "part_toolCallId (ToolCallPart i _ _) = Some i"
| "part_toolCallId (ToolResultPart i _ _) = i"
| "part_toolCallId _ = None"

datatype v3_content = StringContent string | PartsContent "IV3ContentPart list"

datatype v3_role = RoleSystem | RoleUser | RoleAssistant | RoleTool

datatype IV3Message = IV3Message (v3_role: v3_role) (v3_content: v3_content)

subsection \<open>Vendor messages\<close>

datatype IAnthropicContentBlock =
    TextBlock string
  | ImageBlock string string
  | ToolUseBlock string string json
  | ToolResultBlock string string "bool option"

datatype vendor_content = BareString string | Blocks "IAnthropicContentBlock list"

datatype vendor_role = VUser | VAssistant

fun role_name :: "vendor_role \<Rightarrow> string" where
  "role_name VUser = ''user''"
| "role_name VAssistant = ''assistant''"

record IAnthropicMessage =
  role :: vendor_role
  content :: vendor_content

record IConvertedPrompt =
  system :: "string option"
  messages :: "IAnthropicMessage list"

subsection \<open>Content parts\<close>

definition SUPPORTED_IMAGE_TYPES :: "string list" where
  "SUPPORTED_IMAGE_TYPES = [''image/jpeg'', ''image/png'', ''image/gif'', ''image/webp'']"

definition validateImageMediaType :: "string \<Rightarrow> AzureAnthropicError + string" where
  "validateImageMediaType mediaType =
     (if mediaType \<notin> set SUPPORTED_IMAGE_TYPES
      then Inl (new_AzureAnthropicError Conversion
             (''Unsupported image media type: '' @ mediaType @ ''. Supported: '' @
              join '', '' SUPPORTED_IMAGE_TYPES) None)
      else Inr mediaType)"

definition extractBase64Data :: "file_data \<Rightarrow> string" where
  "extractBase64Data d =
     (case d of
        DataBytes bytes \<Rightarrow> base64 bytes
      | DataString s \<Rightarrow>
          if take 5 s = ''data:''
          then (case dropWhile (\<lambda>c. c \<noteq> CHR '','') s of
                  [] \<Rightarrow> s
                | comma # rest \<Rightarrow> rest)
          else s)"

definition convertFilePart ::
  "file_data \<Rightarrow> string \<Rightarrow> AzureAnthropicError + IAnthropicContentBlock" where
  "convertFilePart d mediaType =
     (case validateImageMediaType mediaType of
        Inl e \<Rightarrow> Inl e
      | Inr mt \<Rightarrow> Inr (ImageBlock mt (extractBase64Data d)))"

definition convertToolCallPart ::
  "js_runtime \<Rightarrow> string \<Rightarrow> string \<Rightarrow> tool_args \<Rightarrow> IAnthropicContentBlock" where
  "convertToolCallPart R toolCallId toolName args =
     ToolUseBlock toolCallId toolName
       (case args of
          ArgsString s \<Rightarrow> (case JSON_parse R s of Some v \<Rightarrow> v | None \<Rightarrow> JObject [])
        | ArgsObject v \<Rightarrow> v)"

fun convertContentPart ::
  "js_runtime \<Rightarrow> IV3ContentPart \<Rightarrow> vendor_role \<Rightarrow> AzureAnthropicError + IAnthropicContentBlock" where
  "convertContentPart R (TextPart t) r = Inr (TextBlock t)"
| "convertContentPart R (FilePart d mediaType) r =
     (if r = VUser then convertFilePart d mediaType
      else Inl (new_AzureAnthropicError Conversion
             (''Unsupported assistant content part type: '' @ ''file'') None))"
| "convertContentPart R (ToolCallPart toolCallId toolName args) r =
     (if r = VAssistant then Inr (convertToolCallPart R toolCallId toolName args)
      else Inl (new_AzureAnthropicError Conversion
             (''Unsupported user content part type: '' @ ''tool-call'') None))"
| "convertContentPart R part r =
     Inl (new_AzureAnthropicError Conversion
       (''Unsupported '' @ role_name r @ '' content part type: '' @ part_type part) None)"

text \<open>The loop of \<open>convertContentForRole\<close>: the first part that fails ends it.\<close>

fun convertParts ::
  "js_runtime \<Rightarrow> IV3ContentPart list \<Rightarrow> vendor_role \<Rightarrow>
   AzureAnthropicError + IAnthropicContentBlock list" where
  "convertParts R [] r = Inr []"
| "convertParts R (part # parts) r =
     (case convertContentPart R part r of
        Inl e \<Rightarrow> Inl e
      | Inr converted \<Rightarrow>
          (case convertParts R parts r of
             Inl e \<Rightarrow> Inl e
           | Inr blocks \<Rightarrow> Inr (converted # blocks)))"

definition convertContentForRole ::
  "js_runtime \<Rightarrow> v3_content \<Rightarrow> vendor_role \<Rightarrow> AzureAnthropicError + vendor_content" where
  "convertContentForRole R c r =
     (case c of
        StringContent s \<Rightarrow> Inr (BareString s)
      | PartsContent parts \<Rightarrow>
          (case convertParts R parts r of
             Inl e \<Rightarrow> Inl e
           | Inr blocks \<Rightarrow>
               (case blocks of
                  [TextBlock t] \<Rightarrow> Inr (BareString t)
                | _ \<Rightarrow> Inr (Blocks blocks))))"

subsection \<open>System and tool messages\<close>

fun text_of_parts :: "IV3ContentPart list \<Rightarrow> string list" where
  "text_of_parts [] = []"
| "text_of_parts (TextPart t # parts) = t # text_of_parts parts"
| "text_of_parts (part # parts) = text_of_parts parts"

definition extractSystemContent :: "IV3Message \<Rightarrow> string" where
  "extractSystemContent m =
     (case v3_content m of
        StringContent s \<Rightarrow> s
      | PartsContent parts \<Rightarrow> join [CHR 0x0A] (text_of_parts parts))"

text \<open>One pass of the loop of \<open>convertToolResultMessage\<close>: the blocks a part adds.\<close>

fun toolResultBlock :: "js_runtime \<Rightarrow> IV3ContentPart \<Rightarrow> IAnthropicContentBlock list" where
  "toolResultBlock R (ToolResultPart toolCallId result isError) =
     (if truthy toolCallId
      then [ToolResultBlock (the toolCallId)
              (case result of JString s \<Rightarrow> s | _ \<Rightarrow> JSON_stringify R result)
              isError]
      else [])"
| "toolResultBlock R part = []"

definition convertToolResultMessage :: "js_runtime \<Rightarrow> IV3Message \<Rightarrow> IAnthropicMessage" where
  "convertToolResultMessage R m =
     (case v3_content m of
        StringContent s \<Rightarrow> \<lparr> role = VUser, content = BareString s \<rparr>
      | PartsContent parts \<Rightarrow>
          \<lparr> role = VUser, content = Blocks (concat (map (toolResultBlock R) parts)) \<rparr>)"

subsection \<open>Merging\<close>

definition normalizeContent :: "vendor_content \<Rightarrow> IAnthropicContentBlock list" where
  "normalizeContent c = (case c of BareString s \<Rightarrow> [TextBlock s] | Blocks bs \<Rightarrow> bs)"

text \<open>
  The body of the loop of \<open>mergeConsecutiveMessages\<close>. On an empty \<open>merged\<close>,
  \<open>merged[merged.length - 1]\<close> is undefined and the message is pushed.
\<close>

definition merge_step :: "IAnthropicMessage list \<Rightarrow> IAnthropicMessage \<Rightarrow> IAnthropicMessage list" where
  "merge_step merged m =
     (if merged \<noteq> [] \<and> role (last merged) = role m
      then merged[length merged - 1 :=
             \<lparr> role = role m,
               content = Blocks (normalizeContent (content (last merged)) @
                                 normalizeContent (content m)) \<rparr>]
      else merged @ [m])"

definition mergeConsecutiveMessages :: "IAnthropicMessage list \<Rightarrow> IAnthropicMessage list" where
  "mergeConsecutiveMessages ms = foldl merge_step [] ms"

subsection \<open>The prompt\<close>

text \<open>
  The loop of \<open>convertPrompt\<close>, with its two variables \<open>system\<close> and \<open>messages\<close>;
  its result is the list of vendor messages before merging.
\<close>

fun convertMessages ::
  "js_runtime \<Rightarrow> IV3Message list \<Rightarrow> string option \<Rightarrow> IAnthropicMessage list \<Rightarrow>
   AzureAnthropicError + (string option \<times> IAnthropicMessage list)" where
  "convertMessages R [] sys msgs = Inr (sys, msgs)"
| "convertMessages R (m # prompt) sys msgs =
     (case v3_role m of
        RoleSystem \<Rightarrow> convertMessages R prompt (Some (extractSystemContent m)) msgs
      | RoleUser \<Rightarrow>
          (case convertContentForRole R (v3_content m) VUser of
             Inl e \<Rightarrow> Inl e
           | Inr c \<Rightarrow> convertMessages R prompt sys (msgs @ [\<lparr> role = VUser, content = c \<rparr>]))
      | RoleAssistant \<Rightarrow>
          (case convertContentForRole R (v3_content m) VAssistant of
             Inl e \<Rightarrow> Inl e
           | Inr c \<Rightarrow> convertMessages R prompt sys (msgs @ [\<lparr> role = VAssistant, content = c \<rparr>]))
      | RoleTool \<Rightarrow> convertMessages R prompt sys (msgs @ [convertToolResultMessage R m]))"

definition convertPrompt ::
  "js_runtime \<Rightarrow> IV3Message list \<Rightarrow> AzureAnthropicError + IConvertedPrompt" where
  "convertPrompt R prompt =
     (case convertMessages R prompt None [] of
        Inl e \<Rightarrow> Inl e
      | Inr (sys, msgs) \<Rightarrow> Inr \<lparr> system = sys, messages = mergeConsecutiveMessages msgs \<rparr>)"


subsection \<open>Tools\<close>

text \<open>
  A tool of the call options is a function tool \<open>{type: "function", name, description?,
  inputSchema}\<close> or a tool of another type.
\<close>

record LanguageModelV3FunctionTool =
  name :: string
  description :: "string option"
  inputSchema :: json

datatype LanguageModelV3Tool =
    Function LanguageModelV3FunctionTool
  | Provider string

text \<open>\<open>tools.filter(t => t.type === "function")\<close>, narrowed to function tools.\<close>

fun function_tools :: "LanguageModelV3Tool list \<Rightarrow> LanguageModelV3FunctionTool list" where
  "function_tools [] = []"
| "function_tools (Function f # ts) = f # function_tools ts"
| "function_tools (Provider p # ts) = function_tools ts"

record IAnthropicTool =
  tool_name :: string
  input_schema :: json
  tool_description :: "string option"

definition convertTools :: "LanguageModelV3FunctionTool list \<Rightarrow> IAnthropicTool list" where
  "convertTools ts =
     map (\<lambda>tool. \<lparr> tool_name = name tool, input_schema = inputSchema tool,
                   tool_description = description tool \<rparr>) ts"

datatype LanguageModelV3ToolChoice =
  ChoiceAuto | ChoiceNone | ChoiceRequired | ChoiceTool string

datatype IAnthropicToolChoice = TypeAuto | TypeAny | TypeTool string

fun convertToolChoice :: "LanguageModelV3ToolChoice \<Rightarrow> IAnthropicToolChoice" where
  "convertToolChoice ChoiceAuto = TypeAuto"
| "convertToolChoice ChoiceNone = TypeAuto"
| "convertToolChoice ChoiceRequired = TypeAny"
| "convertToolChoice (ChoiceTool toolName) = TypeTool toolName"

section \<open>The request body (model: \<open>buildRequestBody\<close>)\<close>

text \<open>
  The call options the body is built from; an input the caller does not supply is
  \<open>None\<close>. A field of the body that the spread leaves out is \<open>None\<close>.
\<close>

record LanguageModelV3CallOptions =
  prompt :: "IV3Message list"
  maxOutputTokens :: "int option"
  temperature :: "real option"
  topP :: "real option"
  topK :: "real option"
  stopSequences :: "string list option"
  tools :: "LanguageModelV3Tool list option"
  toolChoice :: "LanguageModelV3ToolChoice option"

record request_body =
  body_model :: string
  body_max_tokens :: int
  body_messages :: "IAnthropicMessage list"
  body_stream :: "bool option"
  body_system :: "string option"
  body_temperature :: "real option"
  body_top_p :: "real option"
  body_top_k :: "real option"
  body_stop_sequences :: "string list option"
  body_tools :: "IAnthropicTool list option"
  body_tool_choice :: "IAnthropicToolChoice option"

text \<open>
  \<open>modelId\<close> and \<open>modelMaxOutputTokens\<close> are \<open>this.modelId\<close> and
  \<open>this.options.maxOutputTokens\<close>.
\<close>

definition buildRequestBody ::
  "js_runtime \<Rightarrow> string \<Rightarrow> int option \<Rightarrow> LanguageModelV3CallOptions \<Rightarrow> bool \<Rightarrow>
   AzureAnthropicError + request_body" where
  "buildRequestBody R modelId modelMaxOutputTokens options isStreaming =
     (case convertPrompt R (prompt options) of
        Inl e \<Rightarrow> Inl e
      | Inr convertedPrompt \<Rightarrow>
          (let functionTools = map_option function_tools (tools options);
               anthropicTools =
                 (case functionTools of
                    Some fts \<Rightarrow> if length fts > 0 then Some (convertTools fts) else None
                  | None \<Rightarrow> None);
               anthropicToolChoice = map_option convertToolChoice (toolChoice options);
               maxTokens =
                 (case maxOutputTokens options of
                    Some n \<Rightarrow> n
                  | None \<Rightarrow> (case modelMaxOutputTokens of Some n \<Rightarrow> n | None \<Rightarrow> 4096))
           in Inr \<lparr> body_model = modelId,
                    body_max_tokens = maxTokens,
                    body_messages = messages convertedPrompt,
                    body_stream = (if isStreaming then Some True else None),
                    body_system = (if truthy (system convertedPrompt)
                                   then system convertedPrompt else None),
                    body_temperature = temperature options,
                    body_top_p = topP options,
                    body_top_k = topK options,
                    body_stop_sequences = stopSequences options,
                    body_tools =
                      (case anthropicTools of
                         Some ats \<Rightarrow> if length ats > 0 then Some ats else None
                       | None \<Rightarrow> None),
                    body_tool_choice = anthropicToolChoice \<rparr>))"

section \<open>Properties of the stream processor\<close>


lemma event_not_terminal:
  assumes "processStreamEvent ev s = (parts, s1)"
  shows "filter is_finish parts = [] \<and> filter is_error parts = []"
  using assms
  by (cases ev) (auto simp: on_content_block_start_def on_content_block_delta_def
      on_content_block_stop_def Let_def split: prod.splits option.splits if_splits)

lemma consume_not_terminal:
  assumes "consume evs started s = (parts, s1)"
  shows "filter is_finish parts = [] \<and> filter is_error parts = []"
  using assms
proof (induction evs arbitrary: started s parts s1)
  case Nil
  then show ?case by simp
next
  case (Cons ev evs)
  obtain p sa where ev: "processStreamEvent ev s = (p, sa)"
    by force
  obtain r sb where rest: "consume evs True sa = (r, sb)"
    by force
  from Cons.prems ev rest
  have parts: "parts = (if \<not> started then [StreamStart] else []) @ p @ r"
    by auto
  from event_not_terminal[OF ev] Cons.IH[OF rest] show ?case
    by (simp add: parts)
qed







text \<open>
  C3. The empty event sequence: the output is exactly one part, the \<open>finish\<close> part,
  whose reason is mapped from the raw reason \<open>"other"\<close> the state starts with, and whose
  input and output token totals are zero. No \<open>stream-start\<close> part is emitted.
\<close>

theorem empty_stream_finish:
  "processStream [] Completes =
     [Finish (convertStopReason (Some ''other'')) ''other''
        \<lparr> inputTokens_total = 0, inputTokens_noCache = None,
          inputTokens_cacheRead = None, inputTokens_cacheWrite = None,
          outputTokens_total = 0, outputTokens_text = 0,
          outputTokens_reasoning = None \<rparr>] \<and>
   convertStopReason (Some ''other'') = Other \<and>
   filter (\<lambda>p. p = StreamStart) (processStream [] Completes) = []"
  by (simp add: processStream_def terminal_part_def finish_part_def initial_state_def
      convertStopReason_def)

text \<open>
  C4. A source that raises a fault after yielding \<open>events\<close>: the output is the parts
  delivered for \<open>events\<close>, unchanged and in order, then one \<open>error\<close> part carrying the
  fault, which ends the output. The \<open>error\<close> part stands where the \<open>finish\<close> part of
  the completed stream would stand: the output holds no \<open>finish\<close> part and exactly one
  \<open>error\<close> part.
\<close>

theorem fault_replaces_finish:
  "processStream events (Raises fault) = delivered events @ [ErrorPart fault] \<and>
   processStream events Completes = delivered events @ [finish_part (state_after events)] \<and>
   filter is_finish (processStream events (Raises fault)) = [] \<and>
   filter is_error (processStream events (Raises fault)) = [ErrorPart fault]"
proof -
  obtain parts s where c: "consume events False initial_state = (parts, s)"
    by force
  from consume_not_terminal[OF c] show ?thesis
    by (simp add: processStream_def terminal_part_def c delivered_def state_after_def)
qed



section \<open>Properties of the stop-reason mapping\<close>

text \<open>
  C6. \<open>convertStopReason\<close> is a function on every nullable vendor reason:
  \<open>end_turn\<close> and \<open>stop_sequence\<close> map to \<open>stop\<close>, \<open>max_tokens\<close> to \<open>length\<close>,
  \<open>tool_use\<close> to \<open>tool-calls\<close>, and \<open>null\<close> and every other string to \<open>other\<close>.
\<close>

theorem stop_reason_mapping:
  "convertStopReason (Some ''end_turn'') = Stop \<and>
   convertStopReason (Some ''stop_sequence'') = Stop \<and>
   convertStopReason (Some ''max_tokens'') = Length \<and>
   convertStopReason (Some ''tool_use'') = ToolCalls \<and>
   convertStopReason None = Other \<and>
   (\<forall>r. r \<noteq> ''end_turn'' \<and> r \<noteq> ''stop_sequence'' \<and> r \<noteq> ''max_tokens'' \<and> r \<noteq> ''tool_use'' \<longrightarrow>
        convertStopReason (Some r) = Other)"
  by (simp add: convertStopReason_def)

theorem stop_reason_mapping_witness:
  "convertStopReason (Some ''pause_turn'') = Other \<and> convertStopReason (Some []) = Other"
  using stop_reason_mapping by simp

section \<open>Properties of content conversion\<close>

lemma convertParts_length:
  "convertParts R parts r = Inr blocks \<Longrightarrow> length blocks = length parts"
  by (induction parts arbitrary: blocks) (auto split: sum.splits)

text \<open>
  C5. A user or assistant message whose content is a list of parts. A single text part
  converts to the bare string of its text. Whenever the conversion succeeds, the
  converted blocks are as many as the parts; when they are exactly one text block the
  content is that block's text as a bare string, and otherwise (several blocks, a single
  block that is not text, or none) the content is the block sequence itself.
\<close>

theorem content_simplification:
  "convertContentForRole R (PartsContent [TextPart t]) r = Inr (BareString t) \<and>
   (convertContentForRole R (PartsContent parts) r = Inr c \<longrightarrow>
      (\<exists>blocks. convertParts R parts r = Inr blocks \<and> length blocks = length parts \<and>
         ((\<exists>t. blocks = [TextBlock t] \<and> c = BareString t) \<or>
          ((\<forall>t. blocks \<noteq> [TextBlock t]) \<and> c = Blocks blocks))))"
proof (intro conjI impI)
  show "convertContentForRole R (PartsContent [TextPart t]) r = Inr (BareString t)"
    by (simp add: convertContentForRole_def)
next
  assume ok: "convertContentForRole R (PartsContent parts) r = Inr c"
  then obtain blocks where bs: "convertParts R parts r = Inr blocks"
    by (auto simp: convertContentForRole_def split: sum.splits)
  have len: "length blocks = length parts"
    by (rule convertParts_length[OF bs])
  have "(\<exists>t. blocks = [TextBlock t] \<and> c = BareString t) \<or>
        ((\<forall>t. blocks \<noteq> [TextBlock t]) \<and> c = Blocks blocks)"
    using ok bs
    by (auto simp: convertContentForRole_def split: list.splits IAnthropicContentBlock.splits)
  with bs len show "\<exists>blocks. convertParts R parts r = Inr blocks \<and> length blocks = length parts \<and>
         ((\<exists>t. blocks = [TextBlock t] \<and> c = BareString t) \<or>
          ((\<forall>t. blocks \<noteq> [TextBlock t]) \<and> c = Blocks blocks))"
    by blast
qed

theorem content_simplification_witness:
  "\<forall>R. convertContentForRole R
          (PartsContent [TextPart ''Look'', FilePart (DataString ''aGk='') ''image/png'']) VUser =
        Inr (Blocks [TextBlock ''Look'', ImageBlock ''image/png'' ''aGk=''])"
proof
  fix R
  let ?parts = "[TextPart ''Look'', FilePart (DataString ''aGk='') ''image/png'']"
  let ?c = "Blocks [TextBlock ''Look'', ImageBlock ''image/png'' ''aGk='']"
  have h: "convertContentForRole R (PartsContent ?parts) VUser = Inr ?c"
    by (simp add: convertContentForRole_def convertFilePart_def validateImageMediaType_def
        SUPPORTED_IMAGE_TYPES_def extractBase64Data_def)
  from content_simplification[of R "''x''" VUser ?parts ?c] h
  have "\<exists>blocks. convertParts R ?parts VUser = Inr blocks \<and> length blocks = length ?parts"
    by blast
  with h show "convertContentForRole R (PartsContent ?parts) VUser = Inr ?c"
    by simp
qed

lemma join_supported:
  "join '', '' SUPPORTED_IMAGE_TYPES = ''image/jpeg, image/png, image/gif, image/webp''"
  by (simp add: SUPPORTED_IMAGE_TYPES_def)

lemma convertParts_append_fail:
  assumes "convertParts R pre r = Inr blocks" "convertContentPart R part r = Inl e"
  shows "convertParts R (pre @ part # post) r = Inl e"
  using assms by (induction pre arbitrary: blocks) (auto split: sum.splits)

text \<open>
  C7, as the code has it. A user file part whose media type is not one of
  \<open>image/jpeg\<close>, \<open>image/png\<close>, \<open>image/gif\<close>, \<open>image/webp\<close>: the conversion of the part,
  and of any user content that reaches it, fails with a \<open>conversion\<close> error whose message
  names the rejected media type. The error is constructed without a field name: its
  \<open>field\<close> is undefined.
\<close>

theorem unsupported_media_type:
  assumes "mediaType \<notin> set SUPPORTED_IMAGE_TYPES"
  defines "e \<equiv> \<lparr> code = Conversion,
       message = ''Unsupported image media type: '' @ mediaType @
                 ''. Supported: image/jpeg, image/png, image/gif, image/webp'',
       field = None \<rparr>"
  shows "convertContentPart R (FilePart d mediaType) VUser = Inl e \<and>
     (\<forall>pre blocks post. convertParts R pre VUser = Inr blocks \<longrightarrow>
        convertContentForRole R (PartsContent (pre @ FilePart d mediaType # post)) VUser = Inl e)"
proof -
  have part: "convertContentPart R (FilePart d mediaType) VUser = Inl e"
    using assms(1)
    by (simp add: convertFilePart_def validateImageMediaType_def new_AzureAnthropicError_def
        join_supported e_def)
  show ?thesis
    using part convertParts_append_fail[OF _ part]
    by (simp add: convertContentForRole_def)
qed

theorem unsupported_media_type_witness:
  "\<forall>R. convertContentPart R (FilePart (DataString ''data'') ''image/bmp'') VUser =
        Inl \<lparr> code = Conversion,
              message = ''Unsupported image media type: image/bmp. Supported: image/jpeg, image/png, image/gif, image/webp'',
              field = None \<rparr>"
proof
  fix R
  have h: "''image/bmp'' \<notin> set SUPPORTED_IMAGE_TYPES"
    by (simp add: SUPPORTED_IMAGE_TYPES_def)
  from unsupported_media_type[OF h, of R "DataString ''data''"]
  show "convertContentPart R (FilePart (DataString ''data'') ''image/bmp'') VUser =
        Inl \<lparr> code = Conversion,
              message = ''Unsupported image media type: image/bmp. Supported: image/jpeg, image/png, image/gif, image/webp'',
              field = None \<rparr>"
    by simp
qed

text \<open>
  C7, as the claim states it, fails: for the file part of media type \<open>image/bmp\<close> the
  error raised does not carry the field name \<open>mediaType\<close>.
\<close>

theorem unsupported_media_type_field_counterexample:
  "\<not> (case convertFilePart (DataString ''data'') ''image/bmp'' of
         Inl e \<Rightarrow> code e = Conversion \<and> field e = Some ''mediaType''
       | Inr b \<Rightarrow> False)"
  by (simp add: convertFilePart_def validateImageMediaType_def new_AzureAnthropicError_def
      SUPPORTED_IMAGE_TYPES_def)

text \<open>
  C8. An assistant tool-call part whose arguments are a string: the conversion of the
  part, and of the content that holds it, returns and never raises. The input of the
  \<open>tool_use\<close> block is the value \<open>JSON.parse\<close> returns when the string parses, and the
  empty object when \<open>JSON.parse\<close> throws.
\<close>

theorem tool_call_args_never_raise:
  "convertContentPart R (ToolCallPart toolCallId toolName (ArgsString s)) VAssistant =
     Inr (ToolUseBlock toolCallId toolName
            (case JSON_parse R s of Some v \<Rightarrow> v | None \<Rightarrow> JObject [])) \<and>
   convertContentForRole R
       (PartsContent [ToolCallPart toolCallId toolName (ArgsString s)]) VAssistant =
     Inr (Blocks [ToolUseBlock toolCallId toolName
            (case JSON_parse R s of Some v \<Rightarrow> v | None \<Rightarrow> JObject [])])"
  by (simp add: convertToolCallPart_def convertContentForRole_def)

lemma skipped_part:
  "part_type part \<noteq> ''tool-result'' \<or> part_toolCallId part = None \<Longrightarrow> toolResultBlock R part = []"
  by (cases part) (auto simp: truthy_def)

text \<open>
  C10. A tool message whose content is a list of parts. A part whose type is not
  \<open>tool-result\<close>, or that has no tool-call id, adds no block and raises nothing: the
  message converts as if the part were not there. When every part is such a part, the
  message is the vendor user message whose content is the empty block list, and the
  prompt that holds only this message converts without error.
\<close>

theorem tool_parts_skipped:
  "((part_type part \<noteq> ''tool-result'' \<or> part_toolCallId part = None) \<longrightarrow>
      toolResultBlock R part = [] \<and>
      convertToolResultMessage R (IV3Message RoleTool (PartsContent (pre @ part # post))) =
      convertToolResultMessage R (IV3Message RoleTool (PartsContent (pre @ post)))) \<and>
   ((\<forall>p \<in> set parts. part_type p \<noteq> ''tool-result'' \<or> part_toolCallId p = None) \<longrightarrow>
      convertToolResultMessage R (IV3Message RoleTool (PartsContent parts)) =
        \<lparr> role = VUser, content = Blocks [] \<rparr> \<and>
      convertPrompt R [IV3Message RoleTool (PartsContent parts)] =
        Inr \<lparr> system = None, messages = [\<lparr> role = VUser, content = Blocks [] \<rparr>] \<rparr>)"
proof (intro conjI impI)
  assume s: "part_type part \<noteq> ''tool-result'' \<or> part_toolCallId part = None"
  show "toolResultBlock R part = []" by (rule skipped_part[OF s])
  then show "convertToolResultMessage R (IV3Message RoleTool (PartsContent (pre @ part # post))) =
      convertToolResultMessage R (IV3Message RoleTool (PartsContent (pre @ post)))"
    by (simp add: convertToolResultMessage_def)
next
  assume all: "\<forall>p \<in> set parts. part_type p \<noteq> ''tool-result'' \<or> part_toolCallId p = None"
  then have "concat (map (toolResultBlock R) parts) = []"
    by (simp add: skipped_part)
  then show m: "convertToolResultMessage R (IV3Message RoleTool (PartsContent parts)) =
        \<lparr> role = VUser, content = Blocks [] \<rparr>"
    by (simp add: convertToolResultMessage_def)
  show "convertPrompt R [IV3Message RoleTool (PartsContent parts)] =
        Inr \<lparr> system = None, messages = [\<lparr> role = VUser, content = Blocks [] \<rparr>] \<rparr>"
    by (simp add: convertPrompt_def m mergeConsecutiveMessages_def merge_step_def)
qed

theorem tool_parts_skipped_witness:
  "\<forall>R. convertToolResultMessage R
          (IV3Message RoleTool
             (PartsContent [TextPart ''note'', ToolResultPart None (JString ''Success'') None])) =
        \<lparr> role = VUser, content = Blocks [] \<rparr> \<and>
       convertToolResultMessage R
          (IV3Message RoleTool
             (PartsContent ([ToolResultPart (Some ''call_123'') (JString ''Success'') None] @
                            TextPart ''note'' # []))) =
        \<lparr> role = VUser, content = Blocks [ToolResultBlock ''call_123'' ''Success'' None] \<rparr>"
proof (intro allI conjI)
  fix R
  let ?parts = "[TextPart ''note'', ToolResultPart None (JString ''Success'') None]"
  have all: "\<forall>p \<in> set ?parts. part_type p \<noteq> ''tool-result'' \<or> part_toolCallId p = None"
    by simp
  from tool_parts_skipped[of "TextPart ''note''" R "[]" "[]" ?parts] all
  show "convertToolResultMessage R (IV3Message RoleTool (PartsContent ?parts)) =
        \<lparr> role = VUser, content = Blocks [] \<rparr>"
    by blast
next
  fix R
  let ?pre = "[ToolResultPart (Some ''call_123'') (JString ''Success'') None]"
  have skip: "part_type (TextPart ''note'') \<noteq> ''tool-result'' \<or>
              part_toolCallId (TextPart ''note'') = None"
    by simp
  from tool_parts_skipped[of "TextPart ''note''" R ?pre "[]" "[]"] skip
  have "convertToolResultMessage R
          (IV3Message RoleTool (PartsContent (?pre @ TextPart ''note'' # []))) =
        convertToolResultMessage R (IV3Message RoleTool (PartsContent (?pre @ [])))"
    by blast
  then show "convertToolResultMessage R
          (IV3Message RoleTool (PartsContent (?pre @ TextPart ''note'' # []))) =
        \<lparr> role = VUser, content = Blocks [ToolResultBlock ''call_123'' ''Success'' None] \<rparr>"
    by (simp add: convertToolResultMessage_def truthy_def)
qed

section \<open>Properties of merging\<close>

lemma update_last: "xs \<noteq> [] \<Longrightarrow> xs[length xs - Suc 0 := x] = butlast xs @ [x]"
  by (induction xs rule: rev_induct) simp_all

lemma merge_step_alt:
  "merge_step merged m =
     (if merged \<noteq> [] \<and> role (last merged) = role m
      then butlast merged @
             [\<lparr> role = role m,
                content = Blocks (normalizeContent (content (last merged)) @
                                  normalizeContent (content m)) \<rparr>]
      else merged @ [m])"
  by (simp add: merge_step_def update_last)

lemma merge_step_snoc:
  "merge_step (acc @ [x]) m = acc @ merge_step [x] m"
  by (simp add: merge_step_alt)

lemma merge_step_last:
  "merge_step acc m \<noteq> [] \<and> role (last (merge_step acc m)) = role m"
  by (simp add: merge_step_def update_last)

lemma foldl_merge_snoc:
  "foldl merge_step (acc @ [x]) ms = acc @ foldl merge_step [x] ms"
proof (induction ms arbitrary: x acc)
  case Nil
  show ?case by simp
next
  case (Cons m ms)
  obtain pre y where step: "merge_step [x] m = pre @ [y]"
    using merge_step_last[of "[x]" m] by (metis append_butlast_last_id)
  have "foldl merge_step (acc @ [x]) (m # ms) = foldl merge_step ((acc @ pre) @ [y]) ms"
    by (simp add: merge_step_snoc step)
  also have "\<dots> = (acc @ pre) @ foldl merge_step [y] ms"
    by (rule Cons.IH)
  also have "\<dots> = acc @ foldl merge_step (pre @ [y]) ms"
    by (simp add: Cons.IH[of pre y])
  finally show ?case by (simp add: step)
qed

lemma foldl_merge_last:
  "ms \<noteq> [] \<Longrightarrow> foldl merge_step acc ms \<noteq> [] \<and>
     role (last (foldl merge_step acc ms)) = role (last ms)"
proof (induction ms arbitrary: acc)
  case Nil
  then show ?case by simp
next
  case (Cons m ms)
  show ?case
  proof (cases "ms = []")
    case True
    then show ?thesis using merge_step_last[of acc m] by simp
  next
    case False
    then show ?thesis using Cons.IH[of "merge_step acc m"] by simp
  qed
qed

lemma merge_step_distinct_adj:
  assumes "distinct_adj (map role acc)"
  shows "distinct_adj (map role (merge_step acc m))"
proof (cases "acc \<noteq> [] \<and> role (last acc) = role m")
  case True
  then obtain pre x where acc: "acc = pre @ [x]"
    by (metis append_butlast_last_id)
  with True have "role x = role m" by simp
  then have "map role (merge_step acc m) = map role acc"
    by (simp add: merge_step_alt acc)
  with assms show ?thesis by simp
next
  case False
  then have "merge_step acc m = acc @ [m]"
    by (auto simp: merge_step_def)
  with assms False show ?thesis
    by (auto simp: distinct_adj_append_iff last_map)
qed

lemma foldl_merge_distinct_adj:
  "distinct_adj (map role acc) \<Longrightarrow> distinct_adj (map role (foldl merge_step acc ms))"
  by (induction ms arbitrary: acc) (simp_all add: merge_step_distinct_adj)

lemma merge_distinct_adj: "distinct_adj (map role (mergeConsecutiveMessages ms))"
  by (simp add: mergeConsecutiveMessages_def foldl_merge_distinct_adj)

lemma foldl_merge_run:
  assumes "\<forall>m \<in> set ms. role m = role x"
  shows "foldl merge_step [x] ms =
     [if ms = [] then x
      else \<lparr> role = role x,
             content = Blocks (normalizeContent (content x) @
                               concat (map (normalizeContent \<circ> content) ms)) \<rparr>]"
  using assms
proof (induction ms arbitrary: x)
  case Nil
  show ?case by simp
next
  case (Cons m ms)
  let ?y = "\<lparr> role = role m,
       content = Blocks (normalizeContent (content x) @ normalizeContent (content m)) \<rparr>"
  from Cons.prems have rm: "role m = role x" and rest: "\<forall>k \<in> set ms. role k = role ?y"
    by simp_all
  have step: "merge_step [x] m = [?y]"
    using rm by (simp add: merge_step_def)
  show ?case
    using Cons.IH[OF rest] rm by (simp add: step normalizeContent_def)
qed

lemma foldl_merge_boundary:
  assumes "acc = [] \<or> ms = [] \<or> role (last acc) \<noteq> role (hd ms)"
  shows "foldl merge_step acc ms = acc @ foldl merge_step [] ms"
proof (cases "acc = [] \<or> ms = []")
  case True
  then show ?thesis by auto
next
  case False
  then obtain m rest where ms: "ms = m # rest" by (cases ms) auto
  from False obtain pre x where acc: "acc = pre @ [x]"
    by (metis append_butlast_last_id)
  from assms False ms acc have ne: "role x \<noteq> role m" by simp
  have "foldl merge_step acc ms = pre @ foldl merge_step [x] (m # rest)"
    by (simp only: acc ms foldl_merge_snoc)
  also have "foldl merge_step [x] (m # rest) = foldl merge_step ([x] @ [m]) rest"
    using ne by (simp add: merge_step_def)
  also have "\<dots> = [x] @ foldl merge_step [m] rest"
    by (rule foldl_merge_snoc)
  also have "foldl merge_step [m] rest = foldl merge_step [] (m # rest)"
    by (simp add: merge_step_def)
  finally show ?thesis by (simp add: acc ms)
qed

lemma merge_run:
  assumes "run \<noteq> []" "\<forall>m \<in> set run. role m = r"
  shows "mergeConsecutiveMessages run =
     [\<lparr> role = r,
        content = (if length run = 1 then content (hd run)
                   else Blocks (concat (map (normalizeContent \<circ> content) run))) \<rparr>]"
proof -
  from assms obtain x ms where run: "run = x # ms" by (cases run) auto
  with assms have rx: "role x = r" and all: "\<forall>m \<in> set ms. role m = role x" by simp_all
  have "mergeConsecutiveMessages run = foldl merge_step [x] ms"
    by (simp add: mergeConsecutiveMessages_def run merge_step_def)
  then show ?thesis
    using foldl_merge_run[OF all] rx by (auto simp: run)
qed

lemma merge_split:
  assumes "run \<noteq> []" "\<forall>m \<in> set run. role m = r"
    "pre = [] \<or> role (last pre) \<noteq> r" "post = [] \<or> role (hd post) \<noteq> r"
  shows "mergeConsecutiveMessages (pre @ run @ post) =
     mergeConsecutiveMessages pre @ mergeConsecutiveMessages run @ mergeConsecutiveMessages post"
proof -
  let ?A = "foldl merge_step [] pre"
  have hd_run: "role (hd run) = r" and last_run: "role (last run) = r"
    using assms(1,2) by simp_all
  have b1: "?A = [] \<or> run = [] \<or> role (last ?A) \<noteq> role (hd run)"
  proof (cases "pre = []")
    case True
    then show ?thesis by simp
  next
    case False
    with foldl_merge_last[OF False, of "[]"] assms(3) hd_run show ?thesis by simp
  qed
  have one: "foldl merge_step ?A run = ?A @ foldl merge_step [] run"
    by (rule foldl_merge_boundary[OF b1])
  let ?B = "?A @ foldl merge_step [] run"
  have lastB: "?B \<noteq> [] \<and> role (last ?B) = r"
    using foldl_merge_last[OF assms(1), of "[]"] last_run by simp
  have b2: "?B = [] \<or> post = [] \<or> role (last ?B) \<noteq> role (hd post)"
    using lastB assms(4) by auto
  have two: "foldl merge_step ?B post = ?B @ foldl merge_step [] post"
    by (rule foldl_merge_boundary[OF b2])
  show ?thesis
    by (simp add: mergeConsecutiveMessages_def one two)
qed

lemma convertPrompt_merge_normalized:
  assumes "convertMessages R conversation None [] = Inr (sys, premerge)"
  shows "\<exists>res. convertPrompt R conversation = Inr res \<and>
     messages res = mergeConsecutiveMessages premerge \<and>
     distinct_adj (map role (messages res)) \<and>
     (\<forall>pre run post r.
        premerge = pre @ run @ post \<and> run \<noteq> [] \<and> (\<forall>m \<in> set run. role m = r) \<and>
        (pre = [] \<or> role (last pre) \<noteq> r) \<and> (post = [] \<or> role (hd post) \<noteq> r) \<longrightarrow>
        (\<exists>merged.
           messages res =
             mergeConsecutiveMessages pre @ [merged] @ mergeConsecutiveMessages post \<and>
           role merged = r \<and>
           normalizeContent (content merged) = concat (map (normalizeContent \<circ> content) run) \<and>
           (length run = 1 \<longrightarrow> merged = hd run) \<and>
           (length run \<noteq> 1 \<longrightarrow>
              content merged = Blocks (concat (map (normalizeContent \<circ> content) run)))))"
proof -
  let ?res = "\<lparr> system = sys, messages = mergeConsecutiveMessages premerge \<rparr>"
  have res: "convertPrompt R conversation = Inr ?res"
    using assms by (simp add: convertPrompt_def)
  have adj: "distinct_adj (map role (messages ?res))"
    by (simp add: merge_distinct_adj)
  have runs: "\<exists>merged.
           messages ?res =
             mergeConsecutiveMessages pre @ [merged] @ mergeConsecutiveMessages post \<and>
           role merged = r \<and>
           normalizeContent (content merged) = concat (map (normalizeContent \<circ> content) run) \<and>
           (length run = 1 \<longrightarrow> merged = hd run) \<and>
           (length run \<noteq> 1 \<longrightarrow>
              content merged = Blocks (concat (map (normalizeContent \<circ> content) run)))"
    if split: "premerge = pre @ run @ post" and ne: "run \<noteq> []"
      and same: "\<forall>m \<in> set run. role m = r"
      and before: "pre = [] \<or> role (last pre) \<noteq> r"
      and after: "post = [] \<or> role (hd post) \<noteq> r"
    for pre run post r
  proof -
    let ?c = "if length run = 1 then content (hd run)
              else Blocks (concat (map (normalizeContent \<circ> content) run))"
    let ?m = "\<lparr> role = r, content = ?c \<rparr>"
    have "messages ?res =
        mergeConsecutiveMessages pre @ [?m] @ mergeConsecutiveMessages post"
      using merge_split[OF ne same before after] merge_run[OF ne same]
      by (simp add: split)
    moreover have "normalizeContent ?c = concat (map (normalizeContent \<circ> content) run)"
    proof (cases "length run = 1")
      case True
      then obtain x where "run = [x]" by (cases run) auto
      then show ?thesis by simp
    next
      case False
      then show ?thesis by (simp add: normalizeContent_def)
    qed
    moreover have "length run = 1 \<longrightarrow> ?m = hd run"
    proof
      assume "length run = 1"
      then obtain x where x: "run = [x]" by (cases run) auto
      with same have "role x = r" by simp
      with x show "?m = hd run" by simp
    qed
    ultimately show ?thesis
      by (intro exI[of _ ?m]) simp
  qed
  show ?thesis
  proof (intro exI[of _ ?res] conjI allI impI)
    show "convertPrompt R conversation = Inr ?res" by (rule res)
    show "messages ?res = mergeConsecutiveMessages premerge" by simp
    show "distinct_adj (map role (messages ?res))" by (rule adj)
  next
    fix pre run post r
    assume a: "premerge = pre @ run @ post \<and> run \<noteq> [] \<and> (\<forall>m \<in> set run. role m = r) \<and>
        (pre = [] \<or> role (last pre) \<noteq> r) \<and> (post = [] \<or> role (hd post) \<noteq> r)"
    show "\<exists>merged.
           messages ?res =
             mergeConsecutiveMessages pre @ [merged] @ mergeConsecutiveMessages post \<and>
           role merged = r \<and>
           normalizeContent (content merged) = concat (map (normalizeContent \<circ> content) run) \<and>
           (length run = 1 \<longrightarrow> merged = hd run) \<and>
           (length run \<noteq> 1 \<longrightarrow>
              content merged = Blocks (concat (map (normalizeContent \<circ> content) run)))"
      by (rule runs) (use a in blast)+
  qed
qed

text \<open>
  C1. A conversation whose messages all convert. The messages of the result of
  \<open>convertPrompt\<close> are the merge of the converted messages, and no two adjacent ones
  have the same role. For a run of consecutive converted messages of one role, bounded
  on both sides by another role or by an end of the list, the result holds one message
  of that role in the run's place. Read as a block sequence, a bare string being the
  single text block of that string and a block sequence being itself, its content is
  the contents of the run, each read so, concatenated in order: no block is lost,
  added, changed or moved. A run of two or more messages gives that block sequence
  itself; a run of one message is that message, unchanged.
\<close>

theorem convertPrompt_merge:
  assumes "convertMessages R conversation None [] = Inr (sys, premerge)"
  shows "\<exists>res. convertPrompt R conversation = Inr res \<and>
     messages res = mergeConsecutiveMessages premerge \<and>
     distinct_adj (map role (messages res)) \<and>
     (\<forall>pre run post r.
        premerge = pre @ run @ post \<and> run \<noteq> [] \<and> (\<forall>m \<in> set run. role m = r) \<and>
        (pre = [] \<or> role (last pre) \<noteq> r) \<and> (post = [] \<or> role (hd post) \<noteq> r) \<longrightarrow>
        (\<exists>merged.
           messages res =
             mergeConsecutiveMessages pre @ [merged] @ mergeConsecutiveMessages post \<and>
           role merged = r \<and>
           (case content merged of BareString s \<Rightarrow> [TextBlock s] | Blocks bs \<Rightarrow> bs) =
             concat (map (\<lambda>m. case content m of
                                  BareString s \<Rightarrow> [TextBlock s]
                                | Blocks bs \<Rightarrow> bs) run) \<and>
           (length run = 1 \<longrightarrow> merged = hd run) \<and>
           (length run \<noteq> 1 \<longrightarrow>
              content merged =
                Blocks (concat (map (\<lambda>m. case content m of
                                            BareString s \<Rightarrow> [TextBlock s]
                                          | Blocks bs \<Rightarrow> bs) run)))))"
  using convertPrompt_merge_normalized[OF assms]
  unfolding comp_def normalizeContent_def .

theorem convertPrompt_merge_witness:
  "\<forall>R. convertMessages R
          [IV3Message RoleUser (StringContent ''Hello''),
           IV3Message RoleUser
             (PartsContent [TextPart ''Look'', FilePart (DataString ''aGk='') ''image/png'']),
           IV3Message RoleTool
             (PartsContent [ToolResultPart (Some ''call_123'') (JString ''Success'') None]),
           IV3Message RoleAssistant (StringContent ''Done'')] None [] =
        Inr (None,
          [\<lparr> role = VUser, content = BareString ''Hello'' \<rparr>,
           \<lparr> role = VUser, content =
               Blocks [TextBlock ''Look'', ImageBlock ''image/png'' ''aGk=''] \<rparr>,
           \<lparr> role = VUser, content =
               Blocks [ToolResultBlock ''call_123'' ''Success'' None] \<rparr>,
           \<lparr> role = VAssistant, content = BareString ''Done'' \<rparr>]) \<and>
       convertPrompt R
          [IV3Message RoleUser (StringContent ''Hello''),
           IV3Message RoleUser
             (PartsContent [TextPart ''Look'', FilePart (DataString ''aGk='') ''image/png'']),
           IV3Message RoleTool
             (PartsContent [ToolResultPart (Some ''call_123'') (JString ''Success'') None]),
           IV3Message RoleAssistant (StringContent ''Done'')] =
        Inr \<lparr> system = None, messages =
          [\<lparr> role = VUser, content =
               Blocks [TextBlock ''Hello'', TextBlock ''Look'',
                       ImageBlock ''image/png'' ''aGk='',
                       ToolResultBlock ''call_123'' ''Success'' None] \<rparr>,
           \<lparr> role = VAssistant, content = BareString ''Done'' \<rparr>] \<rparr>"
proof
  fix R
  let ?u1 = "\<lparr> role = VUser, content = BareString ''Hello'' \<rparr>"
  let ?u2 = "\<lparr> role = VUser, content =
               Blocks [TextBlock ''Look'', ImageBlock ''image/png'' ''aGk=''] \<rparr>"
  let ?u3 = "\<lparr> role = VUser, content =
               Blocks [ToolResultBlock ''call_123'' ''Success'' None] \<rparr>"
  let ?a = "\<lparr> role = VAssistant, content = BareString ''Done'' \<rparr>"
  let ?conversation =
    "[IV3Message RoleUser (StringContent ''Hello''),
      IV3Message RoleUser
        (PartsContent [TextPart ''Look'', FilePart (DataString ''aGk='') ''image/png'']),
      IV3Message RoleTool
        (PartsContent [ToolResultPart (Some ''call_123'') (JString ''Success'') None]),
      IV3Message RoleAssistant (StringContent ''Done'')]"
  let ?all = "Blocks [TextBlock ''Hello'', TextBlock ''Look'',
                      ImageBlock ''image/png'' ''aGk='',
                      ToolResultBlock ''call_123'' ''Success'' None]"
  have h: "convertMessages R ?conversation None [] = Inr (None, [?u1, ?u2, ?u3, ?a])"
    by (simp add: convertContentForRole_def convertFilePart_def validateImageMediaType_def
        SUPPORTED_IMAGE_TYPES_def extractBase64Data_def convertToolResultMessage_def
        truthy_def)
  from convertPrompt_merge[OF h] obtain res where
    res: "convertPrompt R ?conversation = Inr res"
    and runs: "\<forall>pre run post r.
        [?u1, ?u2, ?u3, ?a] = pre @ run @ post \<and> run \<noteq> [] \<and> (\<forall>m \<in> set run. role m = r) \<and>
        (pre = [] \<or> role (last pre) \<noteq> r) \<and> (post = [] \<or> role (hd post) \<noteq> r) \<longrightarrow>
        (\<exists>merged.
           messages res =
             mergeConsecutiveMessages pre @ [merged] @ mergeConsecutiveMessages post \<and>
           role merged = r \<and>
           (case content merged of BareString s \<Rightarrow> [TextBlock s] | Blocks bs \<Rightarrow> bs) =
             concat (map (\<lambda>m. case content m of
                                  BareString s \<Rightarrow> [TextBlock s]
                                | Blocks bs \<Rightarrow> bs) run) \<and>
           (length run = 1 \<longrightarrow> merged = hd run) \<and>
           (length run \<noteq> 1 \<longrightarrow>
              content merged =
                Blocks (concat (map (\<lambda>m. case content m of
                                            BareString s \<Rightarrow> [TextBlock s]
                                          | Blocks bs \<Rightarrow> bs) run))))"
    by blast
  from runs[rule_format, of "[]" "[?u1, ?u2, ?u3]" "[?a]" VUser] obtain merged where
    m: "messages res = mergeConsecutiveMessages [] @ [merged] @ mergeConsecutiveMessages [?a]"
    and r: "role merged = VUser"
    and c: "content merged =
        Blocks (concat (map (\<lambda>m. case content m of
                                    BareString s \<Rightarrow> [TextBlock s]
                                  | Blocks bs \<Rightarrow> bs) [?u1, ?u2, ?u3]))"
    by auto
  have merged: "merged = \<lparr> role = VUser, content = ?all \<rparr>"
    using r c by (cases merged) simp
  have "messages res = [merged, ?a]"
    using m by (simp add: mergeConsecutiveMessages_def merge_step_def)
  moreover have "system res = None"
    using res unfolding convertPrompt_def h by auto
  ultimately have "res = \<lparr> system = None, messages = [merged, ?a] \<rparr>"
    by (cases res) simp
  with res h merged show "convertMessages R ?conversation None [] =
          Inr (None, [?u1, ?u2, ?u3, ?a]) \<and>
       convertPrompt R ?conversation =
          Inr \<lparr> system = None, messages =
                  [\<lparr> role = VUser, content = ?all \<rparr>, ?a] \<rparr>"
    by simp
qed

section \<open>Properties of the request body\<close>

lemma convertMessages_system:
  "convertMessages R conversation sys msgs = Inr (sys1, msgs1) \<Longrightarrow>
     sys1 = sys \<or> (\<exists>m \<in> set conversation. v3_role m = RoleSystem)"
proof (induction conversation arbitrary: sys msgs)
  case Nil
  then show ?case by simp
next
  case (Cons m conversation)
  show ?case
  proof (cases "v3_role m")
    case RoleSystem
    then show ?thesis by simp
  next
    case RoleUser
    with Cons.prems obtain c where
      "convertMessages R conversation sys (msgs @ [\<lparr> role = VUser, content = c \<rparr>]) =
         Inr (sys1, msgs1)"
      by (auto split: sum.splits)
    from Cons.IH[OF this] show ?thesis by auto
  next
    case RoleAssistant
    with Cons.prems obtain c where
      "convertMessages R conversation sys (msgs @ [\<lparr> role = VAssistant, content = c \<rparr>]) =
         Inr (sys1, msgs1)"
      by (auto split: sum.splits)
    from Cons.IH[OF this] show ?thesis by auto
  next
    case RoleTool
    with Cons.prems have
      "convertMessages R conversation sys (msgs @ [convertToolResultMessage R m]) =
         Inr (sys1, msgs1)"
      by simp
    from Cons.IH[OF this] show ?thesis by auto
  qed
qed

lemma convertPrompt_system:
  assumes "convertPrompt R conversation = Inr cp" "system cp \<noteq> None"
  shows "\<exists>m \<in> set conversation. v3_role m = RoleSystem"
proof -
  from assms(1) obtain sys msgs where
    loop: "convertMessages R conversation None [] = Inr (sys, msgs)" and "system cp = sys"
    by (auto simp: convertPrompt_def split: sum.splits)
  with assms(2) convertMessages_system[OF loop] show ?thesis by auto
qed

text \<open>
  C9, as the code has it. Whenever the body is built, each optional field is there only
  when its input was supplied: \<open>stream\<close> only when streaming, and then \<open>true\<close>;
  \<open>system\<close> only when the prompt has a system message, and then its non-empty extracted
  text; \<open>tools\<close> only when tools were supplied, and then the non-empty list of the
  converted function tools; \<open>temperature\<close>, \<open>top_p\<close>, \<open>top_k\<close>, \<open>stop_sequences\<close> and
  \<open>tool_choice\<close> exactly when supplied, with the supplied value (converted, for
  \<open>tool_choice\<close>). So \<open>stop_sequences\<close> is the list the caller supplied, whatever it is.
\<close>

theorem request_body_optional_fields:
  assumes "buildRequestBody R modelId modelMaxOutputTokens options isStreaming = Inr body"
  shows "body_stream body = (if isStreaming then Some True else None) \<and>
     (body_system body \<noteq> None \<longrightarrow> (\<exists>m \<in> set (prompt options). v3_role m = RoleSystem)) \<and>
     (\<forall>s. body_system body = Some s \<longrightarrow>
        s \<noteq> [] \<and> (\<exists>cp. convertPrompt R (prompt options) = Inr cp \<and> system cp = Some s)) \<and>
     body_temperature body = temperature options \<and>
     body_top_p body = topP options \<and>
     body_top_k body = topK options \<and>
     body_stop_sequences body = stopSequences options \<and>
     (\<forall>ats. body_tools body = Some ats \<longrightarrow>
        ats \<noteq> [] \<and> (\<exists>ts. tools options = Some ts \<and> ats = convertTools (function_tools ts))) \<and>
     body_tool_choice body = map_option convertToolChoice (toolChoice options)"
proof -
  from assms obtain cp where cp: "convertPrompt R (prompt options) = Inr cp"
    by (auto simp: buildRequestBody_def split: sum.splits)
  have sys: "body_system body = (if truthy (system cp) then system cp else None)"
    using assms by (simp add: buildRequestBody_def cp Let_def) auto
  have 1: "body_stream body = (if isStreaming then Some True else None)"
    using assms by (simp add: buildRequestBody_def cp Let_def) auto
  have 2: "body_system body \<noteq> None \<longrightarrow> (\<exists>m \<in> set (prompt options). v3_role m = RoleSystem)"
  proof
    assume "body_system body \<noteq> None"
    with sys have "system cp \<noteq> None"
      by (auto split: if_splits)
    from convertPrompt_system[OF cp this]
    show "\<exists>m \<in> set (prompt options). v3_role m = RoleSystem" .
  qed
  have 3: "\<forall>s. body_system body = Some s \<longrightarrow>
        s \<noteq> [] \<and> (\<exists>cp. convertPrompt R (prompt options) = Inr cp \<and> system cp = Some s)"
    using sys cp by (auto simp: truthy_def split: if_splits)
  have 4: "body_temperature body = temperature options \<and>
     body_top_p body = topP options \<and>
     body_top_k body = topK options \<and>
     body_stop_sequences body = stopSequences options \<and>
     body_tool_choice body = map_option convertToolChoice (toolChoice options)"
    using assms by (simp add: buildRequestBody_def cp Let_def) auto
  have tl: "body_tools body =
      (case tools options of
         None \<Rightarrow> None
       | Some ts \<Rightarrow> if function_tools ts = [] then None
                    else Some (convertTools (function_tools ts)))"
    using assms
    by (cases "tools options") (auto simp: buildRequestBody_def cp Let_def convertTools_def)
  have 5: "\<forall>ats. body_tools body = Some ats \<longrightarrow>
        ats \<noteq> [] \<and> (\<exists>ts. tools options = Some ts \<and> ats = convertTools (function_tools ts))"
    using tl by (auto simp: convertTools_def split: option.splits if_splits)
  from 1 2 3 4 5 show ?thesis by simp
qed

theorem request_body_optional_fields_witness:
  "\<forall>R. buildRequestBody R ''claude-sonnet-4-5'' None
          \<lparr> prompt = [IV3Message RoleSystem (StringContent ''Be helpful''),
                      IV3Message RoleUser (StringContent ''Hello'')],
            maxOutputTokens = None, temperature = Some 0, topP = None, topK = None,
            stopSequences = Some [''END''],
            tools = Some [Function \<lparr> name = ''get_weather'', description = None,
                                     inputSchema = JObject [] \<rparr>],
            toolChoice = Some ChoiceRequired \<rparr> True =
        Inr \<lparr> body_model = ''claude-sonnet-4-5'', body_max_tokens = 4096,
              body_messages = [\<lparr> role = VUser, content = BareString ''Hello'' \<rparr>],
              body_stream = Some True, body_system = Some ''Be helpful'',
              body_temperature = Some 0, body_top_p = None, body_top_k = None,
              body_stop_sequences = Some [''END''],
              body_tools = Some [\<lparr> tool_name = ''get_weather'', input_schema = JObject [],
                                   tool_description = None \<rparr>],
              body_tool_choice = Some TypeAny \<rparr>"
proof
  fix R
  let ?options = "\<lparr> prompt = [IV3Message RoleSystem (StringContent ''Be helpful''),
                      IV3Message RoleUser (StringContent ''Hello'')],
            maxOutputTokens = None, temperature = Some (0 :: real), topP = None, topK = None,
            stopSequences = Some [''END''],
            tools = Some [Function \<lparr> name = ''get_weather'', description = None,
                                     inputSchema = JObject [] \<rparr>],
            toolChoice = Some ChoiceRequired \<rparr>"
  let ?body = "\<lparr> body_model = ''claude-sonnet-4-5'', body_max_tokens = 4096,
              body_messages = [\<lparr> role = VUser, content = BareString ''Hello'' \<rparr>],
              body_stream = Some True, body_system = Some ''Be helpful'',
              body_temperature = Some (0 :: real), body_top_p = None, body_top_k = None,
              body_stop_sequences = Some [''END''],
              body_tools = Some [\<lparr> tool_name = ''get_weather'', input_schema = JObject [],
                                   tool_description = None \<rparr>],
              body_tool_choice = Some TypeAny \<rparr>"
  have h: "buildRequestBody R ''claude-sonnet-4-5'' None ?options True = Inr ?body"
    by (simp add: buildRequestBody_def convertPrompt_def convertContentForRole_def
        extractSystemContent_def mergeConsecutiveMessages_def merge_step_def truthy_def
        convertTools_def Let_def)
  from request_body_optional_fields[OF h]
  have "body_stop_sequences ?body = stopSequences ?options" by blast
  with h show "buildRequestBody R ''claude-sonnet-4-5'' None ?options True = Inr ?body"
    by simp
qed

text \<open>
  C9, as the claim states it, fails: when the caller supplies the empty list of stop
  sequences, the body contains \<open>stop_sequences\<close> with the empty list as its value.
\<close>

theorem request_body_empty_stop_sequences_counterexample:
  "\<forall>R. buildRequestBody R ''claude-sonnet-4-5'' None
          \<lparr> prompt = [IV3Message RoleUser (StringContent ''Hello'')],
            maxOutputTokens = None, temperature = None, topP = None, topK = None,
            stopSequences = Some [], tools = None, toolChoice = None \<rparr> False =
        Inr \<lparr> body_model = ''claude-sonnet-4-5'', body_max_tokens = 4096,
              body_messages = [\<lparr> role = VUser, content = BareString ''Hello'' \<rparr>],
              body_stream = None, body_system = None,
              body_temperature = None, body_top_p = None, body_top_k = None,
              body_stop_sequences = Some [],
              body_tools = None, body_tool_choice = None \<rparr>"
  by (simp add: buildRequestBody_def convertPrompt_def convertContentForRole_def
      mergeConsecutiveMessages_def merge_step_def truthy_def Let_def)

end
